theory Spec2Isabelle
  imports Main "HOL-Library.Sublist" "HOL-Library.Multiset"
begin

section \<open>Python strings\<close>

text \<open>
  A Python \<open>str\<close> is a sequence of code points. It is modelled as a HOL \<open>string\<close>, each
  \<open>char\<close> read as the code point with the same number, so the model covers the strings
  whose code points are below 256. On that range the string methods the program calls
  are written out below as CPython defines them.
\<close>

definition code_point :: "char \<Rightarrow> nat" where
  "code_point c = of_char c"

definition lower_char :: "char \<Rightarrow> char" where
  \<comment> \<open>\<open>A\<close>..\<open>Z\<close> and the accented capitals U+00C0..U+00DE (U+00D7, the
      multiplication sign, apart) have their lower-case form 32 places further on.\<close>
  "lower_char c =
     (let n = code_point c
      in if (65 \<le> n \<and> n \<le> 90) \<or> (192 \<le> n \<and> n \<le> 222 \<and> n \<noteq> 215)
         then char_of (n + 32) else c)"

definition lower :: "string \<Rightarrow> string" where
  \<comment> \<open>\<open>str.lower()\<close>\<close>
  "lower s = map lower_char s"

definition isdecimal :: "char \<Rightarrow> bool" where
  \<comment> \<open>the decimal digits \<open>0\<close>..\<open>9\<close>, the only characters below 256 that \<open>int()\<close> reads\<close>
  "isdecimal c = (48 \<le> code_point c \<and> code_point c \<le> 57)"

definition isdigit :: "char \<Rightarrow> bool" where
  \<comment> \<open>\<open>str.isdigit\<close>: the decimal digits and the superscripts U+00B2, U+00B3, U+00B9\<close>
  "isdigit c = (isdecimal c \<or> code_point c \<in> {178, 179, 185})"

definition isspace :: "char \<Rightarrow> bool" where
  \<comment> \<open>the white space that \<open>str.strip()\<close> removes\<close>
  "isspace c =
     (let n = code_point c
      in (9 \<le> n \<and> n \<le> 13) \<or> (28 \<le> n \<and> n \<le> 32) \<or> n = 133 \<or> n = 160)"

definition strip :: "string \<Rightarrow> string" where
  \<comment> \<open>\<open>str.strip()\<close>: white space removed at both ends\<close>
  "strip s = rev (dropWhile isspace (rev (dropWhile isspace s)))"

fun startswith :: "string \<Rightarrow> string \<Rightarrow> bool" where
  "startswith s [] = True"
| "startswith [] (k # ks) = False"
| "startswith (c # s) (k # ks) = (c = k \<and> startswith s ks)"

fun str_contains :: "string \<Rightarrow> string \<Rightarrow> bool" where
  \<comment> \<open>\<open>k in s\<close> on strings: \<open>k\<close> occurs in \<open>s\<close> at some position\<close>
  "str_contains [] k = (k = [])"
| "str_contains (c # s) k = (startswith (c # s) k \<or> str_contains s k)"

datatype exn =
    ValueError
  | IndexError
  | AttributeError
  | OpenAIError
  | RequestException
  | MissingRequiredAttribute
  | InvalidCredentials
  | SourceUnavailable

definition int_max_str_digits :: nat where
  \<comment> \<open>CPython's default limit on the length of a decimal string that \<open>int()\<close> converts\<close>
  "int_max_str_digits = 4300"

definition digit_value :: "char \<Rightarrow> int" where
  "digit_value c = int (code_point c) - 48"

definition int_of_digits :: "string \<Rightarrow> exn + int" where
  \<comment> \<open>\<open>int(s)\<close> for a string \<open>s\<close> of \<open>isdigit\<close> characters, which is all the program
      passes to it: the empty string, a superscript digit and a string over the length
      limit raise \<open>ValueError\<close>; decimal digits are read in base ten.\<close>
  "int_of_digits s =
     (if s = [] \<or> \<not> list_all isdecimal s \<or> int_max_str_digits < length s
      then Inl ValueError
      else Inr (foldl (\<lambda>a c. 10 * a + digit_value c) 0 s))"

section \<open>Data\<close>

record submission =
  s_title :: string
  s_selftext :: string
  s_url :: string
  s_permalink :: string

record post =
  title :: string
  subreddit :: string
  url :: string
  permalink :: string
  "text" :: string

text \<open>
  The module's configuration constants, read by the functions below.
\<close>

record globals =
  SUBREDDITS :: "string list"
  KEYWORDS :: "string list"
  POST_LIMIT :: int
  MAX_POSTS_PER_DAY :: int

definition module_globals :: globals where
  "module_globals =
     \<lparr> SUBREDDITS =
         [''Netherlands'', ''Belgium'', ''France'', ''Sweden'', ''Denmark'', ''Europe'',
          ''germany'', ''Amsterdam'', ''thehague'', ''Rotterdam'', ''Utrecht'', ''Brussels'',
          ''Paris'', ''London'', ''Antwerpen'', ''luxembourg'', ''milano'', ''rome'',
          ''ZeroWaste'', ''ThriftStoreHauls'', ''BuyItForLife'', ''Frugal'', ''Minimalism'',
          ''SustainableLiving'', ''SecondHand'', ''InteriorDesign'', ''interiordecorating'',
          ''DesignMyRoom'', ''MaleLivingSpace'', ''FemaleLivingSpace'', ''HomeDecorating'',
          ''CozyPlaces'', ''RoomPorn'', ''amateurroomporn'', ''HomeImprovement'', ''DIY'',
          ''ApartmentHacks'', ''ScandinavianInterior'', ''furniture'', ''Mid_Century'',
          ''WhatIsThisThing''],
       KEYWORDS =
         [''secondhand'', ''second-hand'', ''thrift'', ''thrifted'', ''vintage'', ''used'',
          ''pre-owned'', ''preloved'', ''pre-loved'', ''reclaimed'', ''upcycled'',
          ''repurposed'', ''handmade'', ''antique'', ''restored'', ''retro'', ''sustainable'',
          ''eco-friendly'', ''eco friendly'', ''zero waste'', ''minimalist'', ''minimalism'',
          ''buy it for life'', ''durable'', ''timeless'', ''reuse'', ''resale'', ''interior'',
          ''interior design'', ''home decor'', ''furniture'', ''sofa'', ''table'', ''chair'',
          ''cabinet'', ''dresser'', ''sideboard'', ''dining set'', ''lamp'', ''rug'', ''mirror'',
          ''art'', ''poster'', ''wall decor'', ''shelving'', ''bookshelf'', ''tv stand'', ''bed'',
          ''bed frame'', ''nightstand'', ''storage'', ''cozy'', ''scandinavian'', ''mid-century'',
          ''boho'', ''eclectic'', ''apartment'', ''renovation'', ''remodel'', ''decorating''],
       POST_LIMIT = 20,
       MAX_POSTS_PER_DAY = 10 \<rparr>"

section \<open>The outside world\<close>

text \<open>
  The program talks to three services. Each is a function of the requests made to it so
  far and of the request: the model fixes nothing about what a service answers, and a
  service may answer the same request differently the second time.

  A listing is what iterating \<open>subreddit.hot(limit)\<close> gives: the submissions it yields,
  then either the end of the iteration or an exception. A completion is what the chat
  request gives back, as far as the program reads it: the request raises, the response
  has no choice, its message has no content, or the content is a string. A webhook reply
  is the status code and body of the response, or the exception \<open>requests.post\<close> raises.
\<close>

datatype listing = Listing (yielded: "submission list") (raised: "exn option")

datatype completion = RaisesError exn | NoChoices | NoContent | Content string

datatype webhook_reply = Response int string | PostFails exn

record env =
  praw_Reddit :: "exn option"
  hot :: "string list \<Rightarrow> string \<Rightarrow> int \<Rightarrow> listing"
  chat_completions_create :: "string list \<Rightarrow> string \<Rightarrow> completion"
  requests_post :: "string list \<Rightarrow> string \<Rightarrow> webhook_reply"

datatype log_event =
    Starting
  | Scanning string
  | FetchError string exn
  | NoKeywordMatches
  | OpenAILogged exn
  | SlackError int string
  | SlackSendFailed exn
  | Sent nat
  | NonePassed

text \<open>
  The state of a run: the log written so far and the requests made so far to each
  service, oldest first; for the webhook each request is kept with its reply.
\<close>

record world =
  log :: "log_event list"
  reddit_requests :: "string list"
  oracle_requests :: "string list"
  slack_requests :: "(string \<times> webhook_reply) list"

definition logging :: "log_event \<Rightarrow> world \<Rightarrow> world" where
  "logging e w = w\<lparr>log := log w @ [e]\<rparr>"

definition world0 :: world where
  "world0 = \<lparr>log = [], reddit_requests = [], oracle_requests = [], slack_requests = []\<rparr>"

section \<open>Reddit setup\<close>

type_synonym reddit = "string list \<Rightarrow> string \<Rightarrow> int \<Rightarrow> listing"

definition create_reddit_instance :: "env \<Rightarrow> exn + reddit" where
  \<comment> \<open>the constructor either raises or gives the client the fetches go through\<close>
  "create_reddit_instance e = (case praw_Reddit e of Some x \<Rightarrow> Inl x | None \<Rightarrow> Inr (hot e))"

section \<open>Fetch and filter by keyword\<close>

definition combined_text :: "submission \<Rightarrow> string" where
  "combined_text p = lower (s_title p @ '' '' @ s_selftext p)"

definition any_keyword_in :: "string list \<Rightarrow> string \<Rightarrow> bool" where
  \<comment> \<open>\<open>any(keyword in text for keyword in keywords)\<close>\<close>
  "any_keyword_in keywords t = list_ex (\<lambda>keyword. str_contains t keyword) keywords"

definition match_of :: "string \<Rightarrow> submission \<Rightarrow> post" where
  "match_of subreddit_name p =
     \<lparr> title = s_title p,
       subreddit = subreddit_name,
       url = s_url p,
       permalink = ''https://reddit.com'' @ s_permalink p,
       text = combined_text p \<rparr>"

fun fetch_loop :: "string \<Rightarrow> string list \<Rightarrow> submission list \<Rightarrow> post list \<Rightarrow> post list" where
  "fetch_loop subreddit_name keywords [] matches = matches"
| "fetch_loop subreddit_name keywords (p # ps) matches =
     fetch_loop subreddit_name keywords ps
       (if any_keyword_in keywords (combined_text p)
        then matches @ [match_of subreddit_name p]
        else matches)"

definition fetch_matching_posts ::
  "globals \<Rightarrow> reddit \<Rightarrow> string \<Rightarrow> string list \<Rightarrow> world \<Rightarrow> post list \<times> world" where
  \<comment> \<open>The \<open>try\<close> encloses the whole loop: the matches appended before an exception stay
      in \<open>matches\<close>, the exception is logged, and \<open>matches\<close> is returned all the same.\<close>
  "fetch_matching_posts g r subreddit_name keywords w =
     (let l = r (reddit_requests w) subreddit_name (POST_LIMIT g);
          w1 = w\<lparr>reddit_requests := reddit_requests w @ [subreddit_name]\<rparr>;
          matches = fetch_loop subreddit_name keywords (yielded l) []
      in case raised l of
           None \<Rightarrow> (matches, w1)
         | Some x \<Rightarrow> (matches, logging (FetchError subreddit_name x) w1))"

section \<open>AI filtering\<close>

definition prompt_of :: "post \<Rightarrow> string" where
  "prompt_of p =
     ''You are a social media manager for Whoppah, a secondhand design marketplace. '' @
     ''Rate this Reddit post's relevance to Whoppah on a scale from 1 (not relevant) to 10 (highly relevant). '' @
     ''Only respond with a number.\<newline>\<newline>'' @
     ''Title: '' @ title p @ ''\<newline>'' @
     ''Body: '' @ text p"

fun score_attempt :: "completion \<Rightarrow> exn + int" where
  \<comment> \<open>the body of the \<open>try\<close>: \<open>choices[0]\<close> of no choice and \<open>.strip()\<close> of no content raise\<close>
  "score_attempt (RaisesError x) = Inl x"
| "score_attempt NoChoices = Inl IndexError"
| "score_attempt NoContent = Inl AttributeError"
| "score_attempt (Content c) = int_of_digits (filter isdigit (strip c))"

definition score_post_with_ai :: "env \<Rightarrow> post \<Rightarrow> world \<Rightarrow> int \<times> world" where
  "score_post_with_ai e p w =
     (let prompt = prompt_of p;
          w1 = w\<lparr>oracle_requests := oracle_requests w @ [prompt]\<rparr>
      in case score_attempt (chat_completions_create e (oracle_requests w) prompt) of
           Inr score \<Rightarrow> (score, w1)
         | Inl x \<Rightarrow> (0, logging (OpenAILogged x) w1))"

fun scoring_loop ::
  "env \<Rightarrow> post list \<Rightarrow> (int \<times> post) list \<Rightarrow> world \<Rightarrow> (int \<times> post) list \<times> world" where
  "scoring_loop e [] scored w = (scored, w)"
| "scoring_loop e (p # ps) scored w =
     (case score_post_with_ai e p w of
        (score, w1) \<Rightarrow>
          scoring_loop e ps (if score > 0 then scored @ [(score, p)] else scored) w1)"

definition sort_reverse :: "('a \<Rightarrow> int) \<Rightarrow> 'a list \<Rightarrow> 'a list" where
  \<comment> \<open>\<open>list.sort(reverse=True, key=f)\<close>: the list is reversed, sorted by a stable
      ascending sort, and reversed again\<close>
  "sort_reverse f xs = rev (sort_key f (rev xs))"

definition slice_to :: "'a list \<Rightarrow> int \<Rightarrow> 'a list" where
  \<comment> \<open>\<open>xs[:n]\<close>: a negative \<open>n\<close> counts from the end\<close>
  "slice_to xs n = (if n < 0 then take (length xs - nat (- n)) xs else take (nat n) xs)"

definition filter_with_ai :: "env \<Rightarrow> post list \<Rightarrow> int \<Rightarrow> world \<Rightarrow> post list \<times> world" where
  "filter_with_ai e posts max_results w =
     (case scoring_loop e posts [] w of
        (scored, w1) \<Rightarrow> (map snd (slice_to (sort_reverse fst scored) max_results), w1))"

section \<open>Slack integration\<close>

definition message_of :: "post \<Rightarrow> string" where
  "message_of p =
     ''*'' @ title p @ ''*\<newline>'' @
     ''Subreddit: r/'' @ subreddit p @ ''\<newline>'' @
     ''<'' @ permalink p @ ''|View on Reddit>''"

fun send_to_slack :: "env \<Rightarrow> post list \<Rightarrow> world \<Rightarrow> world" where
  \<comment> \<open>the function has no \<open>return\<close>: all it leaves is its effect on the world\<close>
  "send_to_slack e [] w = w"
| "send_to_slack e (p # ps) w =
     (let message = message_of p;
          res = requests_post e (map fst (slack_requests w)) message;
          w1 = w\<lparr>slack_requests := slack_requests w @ [(message, res)]\<rparr>
      in send_to_slack e ps
           (case res of
              Response status_code body \<Rightarrow>
                if status_code \<noteq> 200 then logging (SlackError status_code body) w1 else w1
            | PostFails x \<Rightarrow> logging (SlackSendFailed x) w1))"

section \<open>Main logic\<close>

fun scan_loop ::
  "globals \<Rightarrow> reddit \<Rightarrow> string list \<Rightarrow> post list \<Rightarrow> world \<Rightarrow> post list \<times> world" where
  "scan_loop g r [] all_matches w = (all_matches, w)"
| "scan_loop g r (sub # subs) all_matches w =
     (case fetch_matching_posts g r sub (KEYWORDS g) (logging (Scanning sub) w) of
        (matches, w1) \<Rightarrow> scan_loop g r subs (all_matches @ matches) w1)"

definition main :: "globals \<Rightarrow> env \<Rightarrow> world \<Rightarrow> (exn + unit) \<times> world" where
  "main g e w =
     (let w1 = logging Starting w
      in case create_reddit_instance e of
           Inl x \<Rightarrow> (Inl x, w1)
         | Inr r \<Rightarrow>
             (case scan_loop g r (SUBREDDITS g) [] w1 of
                (all_matches, w2) \<Rightarrow>
                  if all_matches = [] then (Inr (), logging NoKeywordMatches w2)
                  else
                    (case filter_with_ai e all_matches (MAX_POSTS_PER_DAY g) w2 of
                       (filtered_posts, w3) \<Rightarrow>
                         if filtered_posts \<noteq> []
                         then (Inr (),
                               logging (Sent (length filtered_posts))
                                 (send_to_slack e filtered_posts w3))
                         else (Inr (), logging NonePassed w3))))"

section \<open>Notions the properties are stated in\<close>

definition decimal_reading :: "string \<Rightarrow> int" where
  \<comment> \<open>the number a string of decimal digits spells: the last digit counts units, each
      place before it ten times more\<close>
  "decimal_reading ds = (\<Sum>i<length ds. digit_value (ds ! i) * 10 ^ (length ds - Suc i))"

definition ci_substring :: "string \<Rightarrow> string \<Rightarrow> bool" where
  \<comment> \<open>\<open>k\<close> is a case-insensitive substring of \<open>t\<close>: with the case of both set
      aside, \<open>k\<close> stands in \<open>t\<close> as a block of consecutive characters\<close>
  "ci_substring k t = sublist (lower k) (lower t)"

definition keyword_matches :: "string list \<Rightarrow> submission list \<Rightarrow> submission list" where
  \<comment> \<open>the submissions whose lower-cased title and body hold a keyword, as it is
      written, as a substring\<close>
  "keyword_matches keywords ps =
     filter (\<lambda>p. \<exists>k \<in> set keywords. sublist k (lower (s_title p @ '' '' @ s_selftext p))) ps"

text \<open>
  The scores the oracle's replies give the candidates, one request each, in the order of
  the list; and the selection with the score of each selected candidate beside it.
\<close>

fun scores_of :: "env \<Rightarrow> post list \<Rightarrow> world \<Rightarrow> int list" where
  "scores_of e [] w = []"
| "scores_of e (p # ps) w =
     (case score_post_with_ai e p w of (score, w1) \<Rightarrow> score # scores_of e ps w1)"

definition selected :: "env \<Rightarrow> post list \<Rightarrow> int \<Rightarrow> world \<Rightarrow> (int \<times> post) list" where
  "selected e posts cap w = slice_to (sort_reverse fst (fst (scoring_loop e posts [] w))) cap"

text \<open>
  The stages of a run that reaches them: what the scan collects, with the state after
  it, and what the filter selects from that, with the state after it. The messages
  delivered are those the webhook answered with status 200.
\<close>

definition collected :: "globals \<Rightarrow> env \<Rightarrow> world \<Rightarrow> post list \<times> world" where
  "collected g e w = scan_loop g (hot e) (SUBREDDITS g) [] (logging Starting w)"

definition selection :: "globals \<Rightarrow> env \<Rightarrow> world \<Rightarrow> post list \<times> world" where
  "selection g e w =
     filter_with_ai e (fst (collected g e w)) (MAX_POSTS_PER_DAY g) (snd (collected g e w))"

definition delivered :: "world \<Rightarrow> string list" where
  "delivered w =
     map fst (filter (\<lambda>(m, res). case res of Response status_code body \<Rightarrow> status_code = 200
                                   | PostFails x \<Rightarrow> False)
                (slack_requests w))"

section \<open>Sample runs\<close>

definition oracle_env :: "completion \<Rightarrow> env" where
  \<comment> \<open>no source has anything, the oracle always answers \<open>r\<close>, the webhook accepts\<close>
  "oracle_env r =
     \<lparr> praw_Reddit = None,
       hot = (\<lambda>h n l. Listing [] None),
       chat_completions_create = (\<lambda>h q. r),
       requests_post = (\<lambda>h m. Response 200 []) \<rparr>"

definition lamp_post :: post where
  "lamp_post =
     \<lparr> title = ''Vintage lamp'', subreddit = ''furniture'', url = ''https://i.redd.it/lamp.jpg'',
       permalink = ''https://reddit.com/r/furniture/comments/1/lamp/'',
       text = ''vintage lamp found it at a market'' \<rparr>"

definition lamp_submission :: submission where
  "lamp_submission =
     \<lparr> s_title = ''Vintage lamp'', s_selftext = ''Found it at a market'',
       s_url = ''https://i.redd.it/lamp.jpg'', s_permalink = ''/r/A/comments/1/lamp/'' \<rparr>"

definition sofa_submission :: submission where
  "sofa_submission =
     \<lparr> s_title = ''My new SOFA'', s_selftext = '''',
       s_url = ''https://i.redd.it/sofa.jpg'', s_permalink = ''/r/C/comments/2/sofa/'' \<rparr>"

definition cat_submission :: submission where
  "cat_submission =
     \<lparr> s_title = ''Look at my cat'', s_selftext = ''She is asleep'',
       s_url = ''https://i.redd.it/cat.jpg'', s_permalink = ''/r/B/comments/3/cat/'' \<rparr>"

definition sample_globals :: globals where
  "sample_globals =
     \<lparr> SUBREDDITS = [''A'', ''B'', ''C''], KEYWORDS = [''vintage'', ''sofa''],
       POST_LIMIT = 20, MAX_POSTS_PER_DAY = 10 \<rparr>"

definition three_sources :: reddit where
  "three_sources h n l =
     (if n = ''A'' then Listing [lamp_submission] None
      else if n = ''B'' then Listing [] (Some SourceUnavailable)
      else Listing [cat_submission, sofa_submission] None)"

definition breaking_source :: reddit where
  "breaking_source h n l = Listing [lamp_submission] (Some SourceUnavailable)"

definition counting_oracle :: "string list \<Rightarrow> env" where
  \<comment> \<open>the oracle answers its requests with the given replies, one after the other\<close>
  "counting_oracle replies =
     \<lparr> praw_Reddit = None,
       hot = (\<lambda>h n l. Listing [] None),
       chat_completions_create =
         (\<lambda>h q. if length h < length replies then Content (replies ! length h) else NoChoices),
       requests_post = (\<lambda>h m. Response 200 []) \<rparr>"

definition sofa_post :: post where
  "sofa_post = match_of ''C'' sofa_submission"

definition cat_post :: post where
  "cat_post = match_of ''B'' cat_submission"

definition busy_source :: reddit where
  "busy_source h n l =
     (if n = ''A'' then Listing [lamp_submission, sofa_submission] None
      else if n = ''B'' then Listing [cat_submission] None
      else Listing [sofa_submission] None)"

definition flaky_webhook_env :: env where
  "flaky_webhook_env =
     \<lparr> praw_Reddit = None,
       hot = busy_source,
       chat_completions_create = (\<lambda>h q. Content ''5''),
       requests_post =
         (\<lambda>h m. if length h = 1 then PostFails RequestException else Response 200 ''ok'') \<rparr>"

definition failing_oracle_env :: env where
  "failing_oracle_env =
     \<lparr> praw_Reddit = None,
       hot = busy_source,
       chat_completions_create = (\<lambda>h q. RaisesError OpenAIError),
       requests_post = (\<lambda>h m. Response 200 ''ok'') \<rparr>"

definition unconfigured_env :: env where
  "unconfigured_env =
     \<lparr> praw_Reddit = Some MissingRequiredAttribute,
       hot = busy_source,
       chat_completions_create = (\<lambda>h q. Content ''5''),
       requests_post = (\<lambda>h m. Response 200 ''ok'') \<rparr>"

definition rejected_env :: env where
  "rejected_env =
     \<lparr> praw_Reddit = None,
       hot = (\<lambda>h n l. Listing [] (Some InvalidCredentials)),
       chat_completions_create = (\<lambda>h q. Content ''5''),
       requests_post = (\<lambda>h m. Response 200 ''ok'') \<rparr>"

section \<open>Properties of the string operations\<close>

lemma startswith_prefix: "startswith s k \<longleftrightarrow> prefix k s"
  by (induction s k rule: startswith.induct) auto

lemma str_contains_sublist: "str_contains s k \<longleftrightarrow> sublist k s"
  by (induction s) (auto simp: startswith_prefix sublist_Cons_right)

lemma code_point_lt: "code_point c < 256"
  by (simp add: code_point_def)

lemma code_point_char_of: "n < 256 \<Longrightarrow> code_point (char_of n) = n"
  by (simp add: code_point_def)

lemma lower_char_idem: "lower_char (lower_char c) = lower_char c"
  using code_point_lt [of c]
  by (auto simp: lower_char_def Let_def code_point_char_of)

lemma lower_idem: "lower (lower s) = lower s"
  by (simp add: lower_def lower_char_idem)

lemma isspace_not_isdigit: "isspace c \<Longrightarrow> \<not> isdigit c"
  by (auto simp: isspace_def isdigit_def isdecimal_def Let_def)

lemma filter_dropWhile_isspace: "filter isdigit (dropWhile isspace s) = filter isdigit s"
  by (induction s) (auto simp: isspace_not_isdigit)

lemma filter_isdigit_strip: "filter isdigit (strip c) = filter isdigit c"
proof -
  have "filter isdigit (strip c) = rev (filter isdigit (dropWhile isspace (rev (dropWhile isspace c))))"
    by (simp add: strip_def rev_filter)
  also have "\<dots> = rev (filter isdigit (rev (dropWhile isspace c)))"
    by (simp only: filter_dropWhile_isspace)
  also have "\<dots> = filter isdigit (dropWhile isspace c)"
    by (simp add: rev_filter)
  finally show ?thesis by (simp add: filter_dropWhile_isspace)
qed

section \<open>The scorer\<close>

lemma foldl_digits_nonneg:
  "list_all isdecimal s \<Longrightarrow> 0 \<le> a \<Longrightarrow> 0 \<le> foldl (\<lambda>a c. 10 * a + digit_value c) a s"
  by (induction s arbitrary: a) (auto simp: isdecimal_def digit_value_def)

lemma int_of_digits_nonneg: "int_of_digits s = Inr n \<Longrightarrow> 0 \<le> n"
  by (auto simp: int_of_digits_def foldl_digits_nonneg split: if_splits)

lemma score_attempt_nonneg: "score_attempt r = Inr n \<Longrightarrow> 0 \<le> n"
  by (cases r) (auto dest: int_of_digits_nonneg)

lemma score_nonneg: "0 \<le> fst (score_post_with_ai e p w)"
  by (auto simp: score_post_with_ai_def Let_def split: sum.splits dest: score_attempt_nonneg)

lemma decimal_reading_Cons:
  "decimal_reading (c # s) = digit_value c * 10 ^ length s + decimal_reading s"
  by (simp add: decimal_reading_def sum.lessThan_Suc_shift del: sum.lessThan_Suc)

lemma foldl_decimal_reading:
  "foldl (\<lambda>a c. 10 * a + digit_value c) a s = a * 10 ^ length s + decimal_reading s"
proof (induction s arbitrary: a)
  case Nil
  show ?case by (simp add: decimal_reading_def)
next
  case (Cons c s)
  have "foldl (\<lambda>a c. 10 * a + digit_value c) a (c # s) =
        (10 * a + digit_value c) * 10 ^ length s + decimal_reading s"
    by (simp add: Cons.IH)
  also have "\<dots> = a * 10 ^ length (c # s) + decimal_reading (c # s)"
    by (simp add: decimal_reading_Cons algebra_simps)
  finally show ?case .
qed

lemma int_of_digits_reading:
  "s \<noteq> [] \<Longrightarrow> list_all isdecimal s \<Longrightarrow> length s \<le> int_max_str_digits \<Longrightarrow>
   int_of_digits s = Inr (decimal_reading s)"
  by (simp add: int_of_digits_def foldl_decimal_reading)

lemma score_eq:
  "fst (score_post_with_ai e p w) =
     (case score_attempt (chat_completions_create e (oracle_requests w) (prompt_of p)) of
        Inl x \<Rightarrow> 0 | Inr n \<Rightarrow> n)"
  by (simp add: score_post_with_ai_def Let_def split: sum.splits)

text \<open>
  C1, as amended. Scoring is total: for every candidate, whatever the oracle does,
  \<open>score_post_with_ai\<close> returns an integer that is at least 0, and it never raises:
  every exception of the request or of the parsing (the request fails, the response has
  no choice or no content, the content has no readable number) ends in the score 0, and
  a number that was read is returned as it is. There is no upper bound: the reply is not
  clamped to the scale of the prompt.
\<close>

theorem score_total:
  "0 \<le> fst (score_post_with_ai e p w) \<and>
   (\<forall>x. score_attempt (chat_completions_create e (oracle_requests w) (prompt_of p)) = Inl x
      \<longrightarrow> fst (score_post_with_ai e p w) = 0) \<and>
   (\<forall>n. score_attempt (chat_completions_create e (oracle_requests w) (prompt_of p)) = Inr n
      \<longrightarrow> fst (score_post_with_ai e p w) = n)"
  using score_nonneg [of e p w] by (simp add: score_eq)

theorem score_total_witness:
  "score_attempt (chat_completions_create (oracle_env (RaisesError OpenAIError))
      (oracle_requests world0) (prompt_of lamp_post)) = Inl OpenAIError \<and>
   fst (score_post_with_ai (oracle_env (RaisesError OpenAIError)) lamp_post world0) = 0 \<and>
   score_attempt (chat_completions_create (oracle_env (Content ''8''))
      (oracle_requests world0) (prompt_of lamp_post)) = Inr 8 \<and>
   fst (score_post_with_ai (oracle_env (Content ''8'')) lamp_post world0) = 8"
proof -
  have a: "score_attempt (chat_completions_create (oracle_env (RaisesError OpenAIError))
      (oracle_requests world0) (prompt_of lamp_post)) = Inl OpenAIError"
    by (simp add: oracle_env_def)
  have b: "score_attempt (chat_completions_create (oracle_env (Content ''8''))
      (oracle_requests world0) (prompt_of lamp_post)) = Inr 8"
    by (simp add: oracle_env_def strip_def isspace_def isdigit_def isdecimal_def code_point_def
        int_of_digits_def int_max_str_digits_def digit_value_def)
  from a b
    score_total [of "oracle_env (RaisesError OpenAIError)" lamp_post world0]
    score_total [of "oracle_env (Content ''8'')" lamp_post world0]
  show ?thesis by blast
qed

text \<open>
  The claim as first stated bounds the score by 10. The reply \<open>42\<close> is scored 42.
\<close>

theorem score_range_counterexample:
  "\<not> (0 \<le> fst (score_post_with_ai (oracle_env (Content ''42'')) lamp_post world0) \<and>
      fst (score_post_with_ai (oracle_env (Content ''42'')) lamp_post world0) \<le> 10)"
  by (simp add: score_eq oracle_env_def strip_def isspace_def isdigit_def isdecimal_def
      code_point_def int_of_digits_def int_max_str_digits_def digit_value_def)

text \<open>
  C9. For every reply of the oracle, the score is read from the digit characters of the
  reply: when the request fails or the response is malformed the score is 0; when the
  content holds no digit character the score is 0; when it holds decimal digits (no more
  of them than \<open>int()\<close> converts) the score is the number those digits spell, in the
  order they stand in the reply, whatever stands between them; and in the one case left,
  digit characters that \<open>int()\<close> does not convert (a superscript digit among them, or
  too many of them), the conversion fails like the request and the score is 0. The four
  cases cover every reply.
\<close>

theorem score_parse:
  "((\<forall>c. chat_completions_create e (oracle_requests w) (prompt_of p) \<noteq> Content c)
      \<longrightarrow> fst (score_post_with_ai e p w) = 0) \<and>
   (chat_completions_create e (oracle_requests w) (prompt_of p) = Content c \<and>
    filter isdigit c = []
      \<longrightarrow> fst (score_post_with_ai e p w) = 0) \<and>
   (chat_completions_create e (oracle_requests w) (prompt_of p) = Content c \<and>
    filter isdigit c \<noteq> [] \<and> list_all isdecimal (filter isdigit c) \<and>
    length (filter isdigit c) \<le> int_max_str_digits
      \<longrightarrow> fst (score_post_with_ai e p w) = decimal_reading (filter isdigit c)) \<and>
   (chat_completions_create e (oracle_requests w) (prompt_of p) = Content c \<and>
    \<not> (list_all isdecimal (filter isdigit c) \<and>
       length (filter isdigit c) \<le> int_max_str_digits)
      \<longrightarrow> fst (score_post_with_ai e p w) = 0)"
proof (intro conjI impI)
  assume "\<forall>c. chat_completions_create e (oracle_requests w) (prompt_of p) \<noteq> Content c"
  then show "fst (score_post_with_ai e p w) = 0"
    by (cases "chat_completions_create e (oracle_requests w) (prompt_of p)")
      (simp_all add: score_eq)
next
  assume "chat_completions_create e (oracle_requests w) (prompt_of p) = Content c \<and>
    filter isdigit c = []"
  then show "fst (score_post_with_ai e p w) = 0"
    by (simp add: score_eq filter_isdigit_strip int_of_digits_def)
next
  assume "chat_completions_create e (oracle_requests w) (prompt_of p) = Content c \<and>
    filter isdigit c \<noteq> [] \<and> list_all isdecimal (filter isdigit c) \<and>
    length (filter isdigit c) \<le> int_max_str_digits"
  then show "fst (score_post_with_ai e p w) = decimal_reading (filter isdigit c)"
    by (simp add: score_eq filter_isdigit_strip int_of_digits_reading)
next
  assume a: "chat_completions_create e (oracle_requests w) (prompt_of p) = Content c \<and>
    \<not> (list_all isdecimal (filter isdigit c) \<and>
       length (filter isdigit c) \<le> int_max_str_digits)"
  then have "int_of_digits (filter isdigit c) = Inl ValueError"
    by (auto simp: int_of_digits_def)
  with a show "fst (score_post_with_ai e p w) = 0"
    by (simp add: score_eq filter_isdigit_strip)
qed

lemma digits_7_10: "filter isdigit '' 7/10 '' = ''710''"
  by (simp add: isdigit_def isdecimal_def code_point_def)

lemma digits_5_squared:
  "filter isdigit [CHR ''5'', CHR 0xB2] = [CHR ''5'', CHR 0xB2]"
  "\<not> list_all isdecimal [CHR ''5'', CHR 0xB2]"
  by (simp_all add: isdigit_def isdecimal_def code_point_def)

theorem score_parse_witness:
  "fst (score_post_with_ai (oracle_env (RaisesError OpenAIError)) lamp_post world0) = 0 \<and>
   fst (score_post_with_ai (oracle_env (Content ''no idea'')) lamp_post world0) = 0 \<and>
   fst (score_post_with_ai (oracle_env (Content '' 7/10 '')) lamp_post world0) = 710 \<and>
   fst (score_post_with_ai (oracle_env (Content [CHR ''5'', CHR 0xB2])) lamp_post world0) = 0"
proof -
  have a: "\<forall>c. chat_completions_create (oracle_env (RaisesError OpenAIError))
      (oracle_requests world0) (prompt_of lamp_post) \<noteq> Content c"
    by (simp add: oracle_env_def)
  have b: "chat_completions_create (oracle_env (Content ''no idea''))
      (oracle_requests world0) (prompt_of lamp_post) = Content ''no idea'' \<and>
      filter isdigit ''no idea'' = []"
    by (simp add: oracle_env_def isdigit_def isdecimal_def code_point_def)
  have c: "chat_completions_create (oracle_env (Content '' 7/10 ''))
      (oracle_requests world0) (prompt_of lamp_post) = Content '' 7/10 '' \<and>
      filter isdigit '' 7/10 '' \<noteq> [] \<and> list_all isdecimal (filter isdigit '' 7/10 '') \<and>
      length (filter isdigit '' 7/10 '') \<le> int_max_str_digits"
    unfolding digits_7_10
    by (simp add: oracle_env_def isdecimal_def code_point_def int_max_str_digits_def)
  have d: "decimal_reading ''710'' = 710"
    by (simp add: decimal_reading_def digit_value_def code_point_def lessThan_Suc)
  have u: "chat_completions_create (oracle_env (Content [CHR ''5'', CHR 0xB2]))
      (oracle_requests world0) (prompt_of lamp_post) = Content [CHR ''5'', CHR 0xB2] \<and>
      \<not> (list_all isdecimal (filter isdigit [CHR ''5'', CHR 0xB2]) \<and>
         length (filter isdigit [CHR ''5'', CHR 0xB2]) \<le> int_max_str_digits)"
    unfolding digits_5_squared(1)
    by (simp add: oracle_env_def isdecimal_def code_point_def)
  from a score_parse [of "oracle_env (RaisesError OpenAIError)" world0 lamp_post]
  have "fst (score_post_with_ai (oracle_env (RaisesError OpenAIError)) lamp_post world0) = 0"
    by blast
  moreover from b score_parse [of "oracle_env (Content ''no idea'')" world0 lamp_post "''no idea''"]
  have "fst (score_post_with_ai (oracle_env (Content ''no idea'')) lamp_post world0) = 0"
    by blast
  moreover from c score_parse [of "oracle_env (Content '' 7/10 '')" world0 lamp_post "'' 7/10 ''"]
  have "fst (score_post_with_ai (oracle_env (Content '' 7/10 '')) lamp_post world0) =
        decimal_reading (filter isdigit '' 7/10 '')"
    by blast
  then have "fst (score_post_with_ai (oracle_env (Content '' 7/10 '')) lamp_post world0) = 710"
    by (simp only: digits_7_10 d)
  moreover from u score_parse [of "oracle_env (Content [CHR ''5'', CHR 0xB2])" world0 lamp_post
      "[CHR ''5'', CHR 0xB2]"]
  have "fst (score_post_with_ai (oracle_env (Content [CHR ''5'', CHR 0xB2])) lamp_post world0) = 0"
    by blast
  ultimately show ?thesis by blast
qed

section \<open>The collector\<close>

lemma any_keyword_in_iff:
  "any_keyword_in keywords t \<longleftrightarrow> (\<exists>k \<in> set keywords. sublist k t)"
  by (simp add: any_keyword_in_def list_ex_iff str_contains_sublist)

lemma fetch_loop_eq:
  "fetch_loop n keywords ps matches =
     matches @ map (match_of n) (filter (\<lambda>p. any_keyword_in keywords (combined_text p)) ps)"
  by (induction ps arbitrary: matches) simp_all

lemma fetch_loop_matches:
  "fetch_loop n keywords ps [] = map (match_of n) (keyword_matches keywords ps)"
  by (simp add: fetch_loop_eq keyword_matches_def any_keyword_in_iff combined_text_def)

lemma fetch_matching_posts_fst:
  "fst (fetch_matching_posts g r n keywords w) =
     fetch_loop n keywords (yielded (r (reddit_requests w) n (POST_LIMIT g))) []"
  by (simp add: fetch_matching_posts_def Let_def split: option.splits)

lemma reddit_requests_logging [simp]: "reddit_requests (logging ev w) = reddit_requests w"
  by (simp add: logging_def)

lemma fetch_matching_posts_requests:
  "reddit_requests (snd (fetch_matching_posts g r n keywords w)) = reddit_requests w @ [n]"
  by (simp add: fetch_matching_posts_def Let_def split: option.splits)

lemma ci_substring_lower:
  "lower k = k \<Longrightarrow> ci_substring k t \<longleftrightarrow> sublist k (lower t)"
  by (simp add: ci_substring_def)

text \<open>
  C4, as amended. For every keyword list and every source, the candidates collected from
  the source are exactly the submissions it yielded whose combined text, the lower-cased
  title, a space and the body, holds at least one keyword as a plain substring, in the
  order they were yielded. The text is lower-cased and the keywords are not: when every
  keyword is in lower case, as the configured ones are, this is case-insensitive
  substring containment, with no stemming and no tokens.
\<close>

theorem keyword_match:
  "fst (fetch_matching_posts g r n keywords w) =
     map (match_of n)
       (filter (\<lambda>p. \<exists>k \<in> set keywords. sublist k (lower (s_title p @ '' '' @ s_selftext p)))
          (yielded (r (reddit_requests w) n (POST_LIMIT g)))) \<and>
   ((\<forall>k \<in> set keywords. lower k = k) \<longrightarrow>
    fst (fetch_matching_posts g r n keywords w) =
      map (match_of n)
        (filter (\<lambda>p. \<exists>k \<in> set keywords. ci_substring k (s_title p @ '' '' @ s_selftext p))
           (yielded (r (reddit_requests w) n (POST_LIMIT g)))))"
proof (intro conjI impI)
  show first:
    "fst (fetch_matching_posts g r n keywords w) =
       map (match_of n)
         (filter (\<lambda>p. \<exists>k \<in> set keywords. sublist k (lower (s_title p @ '' '' @ s_selftext p)))
            (yielded (r (reddit_requests w) n (POST_LIMIT g))))"
    by (simp add: fetch_matching_posts_fst fetch_loop_matches keyword_matches_def)
  assume low: "\<forall>k \<in> set keywords. lower k = k"
  have eq:
    "filter (\<lambda>p. \<exists>k \<in> set keywords. ci_substring k (s_title p @ '' '' @ s_selftext p)) xs =
     filter (\<lambda>p. \<exists>k \<in> set keywords. sublist k (lower (s_title p @ '' '' @ s_selftext p))) xs"
    for xs
    by (rule filter_cong) (use low in \<open>auto simp: ci_substring_lower\<close>)
  show
    "fst (fetch_matching_posts g r n keywords w) =
       map (match_of n)
         (filter (\<lambda>p. \<exists>k \<in> set keywords. ci_substring k (s_title p @ '' '' @ s_selftext p))
            (yielded (r (reddit_requests w) n (POST_LIMIT g))))"
    unfolding eq by (rule first)
qed

lemma lower_vintage: "lower ''vintage'' = ''vintage''" "lower ''sofa'' = ''sofa''"
  by code_simp+

theorem keyword_match_witness:
  "lower ''vintage'' = ''vintage'' \<and> lower ''sofa'' = ''sofa'' \<and>
   fst (fetch_matching_posts sample_globals three_sources ''C'' [''vintage'', ''sofa''] world0) =
     [match_of ''C'' sofa_submission]"
proof -
  have low: "\<forall>k \<in> set [''vintage'', ''sofa'']. lower k = k"
    by (simp add: lower_vintage)
  have ev:
    "map (match_of ''C'')
       (filter (\<lambda>p. \<exists>k \<in> set [''vintage'', ''sofa'']. ci_substring k (s_title p @ '' '' @ s_selftext p))
          (yielded (three_sources (reddit_requests world0) ''C'' (POST_LIMIT sample_globals)))) =
     [match_of ''C'' sofa_submission]"
    by code_simp
  from low keyword_match [of sample_globals three_sources "''C''" "[''vintage'', ''sofa'']" world0]
  have "fst (fetch_matching_posts sample_globals three_sources ''C'' [''vintage'', ''sofa''] world0) =
     map (match_of ''C'')
       (filter (\<lambda>p. \<exists>k \<in> set [''vintage'', ''sofa'']. ci_substring k (s_title p @ '' '' @ s_selftext p))
          (yielded (three_sources (reddit_requests world0) ''C'' (POST_LIMIT sample_globals))))"
    by blast
  then have "fst (fetch_matching_posts sample_globals three_sources ''C'' [''vintage'', ''sofa''] world0) =
     [match_of ''C'' sofa_submission]"
    by (simp only: ev)
  with lower_vintage show ?thesis by blast
qed

text \<open>
  The claim as first stated takes any keyword set. The keyword \<open>Vintage\<close> is a
  case-insensitive substring of the text of a post titled \<open>Vintage lamp\<close>, and the post
  is not collected.
\<close>

theorem keyword_case_counterexample:
  "ci_substring ''Vintage'' (s_title lamp_submission @ '' '' @ s_selftext lamp_submission) \<and>
   fst (fetch_matching_posts sample_globals three_sources ''A'' [''Vintage''] world0) = []"
  by code_simp

lemma scan_loop_eq:
  "fst (scan_loop g r subs all_matches w) =
     all_matches @
     concat (map (\<lambda>i. fetch_loop (subs ! i) (KEYWORDS g)
                        (yielded (r (reddit_requests w @ take i subs) (subs ! i) (POST_LIMIT g))) [])
               [0..<length subs]) \<and>
   reddit_requests (snd (scan_loop g r subs all_matches w)) = reddit_requests w @ subs"
proof (induction subs arbitrary: all_matches w)
  case Nil
  show ?case by simp
next
  case (Cons s subs)
  obtain matches w1 where f: "fetch_matching_posts g r s (KEYWORDS g) (logging (Scanning s) w) = (matches, w1)"
    by (cases "fetch_matching_posts g r s (KEYWORDS g) (logging (Scanning s) w)")
  have m: "matches = fetch_loop s (KEYWORDS g) (yielded (r (reddit_requests w) s (POST_LIMIT g))) []"
    using fetch_matching_posts_fst [of g r s "KEYWORDS g" "logging (Scanning s) w"] f by simp
  have q: "reddit_requests w1 = reddit_requests w @ [s]"
    using fetch_matching_posts_requests [of g r s "KEYWORDS g" "logging (Scanning s) w"] f by simp
  have step: "scan_loop g r (s # subs) all_matches w = scan_loop g r subs (all_matches @ matches) w1"
    by (simp add: f)
  have idx: "[0..<length (s # subs)] = 0 # map Suc [0..<length subs]"
    by (simp add: upt_conv_Cons map_Suc_upt del: upt_Suc)
  show ?case
    unfolding step idx
    by (simp add: Cons.IH q m o_def)
qed

text \<open>
  C5, as amended. For every list of sources, the collected candidates are the keyword
  matches of each source in turn, taken from the submissions that source yielded, whether
  or not its fetch then raised: an error in one source takes nothing away from the
  others, every source is requested, in the configured order, and a source that fails
  before it yields anything contributes nothing.
\<close>

theorem collection_isolated:
  "fst (scan_loop g r subs [] w) =
     concat (map (\<lambda>i. map (match_of (subs ! i))
                        (keyword_matches (KEYWORDS g)
                           (yielded (r (reddit_requests w @ take i subs) (subs ! i) (POST_LIMIT g)))))
               [0..<length subs]) \<and>
   reddit_requests (snd (scan_loop g r subs [] w)) = reddit_requests w @ subs"
  using scan_loop_eq [of g r subs "[]" w] by (simp add: fetch_loop_matches)

theorem collection_isolated_witness:
  "raised (three_sources [''A''] ''B'' 20) = Some SourceUnavailable \<and>
   fst (scan_loop sample_globals three_sources [''A'', ''B'', ''C''] [] world0) =
     [match_of ''A'' lamp_submission, match_of ''C'' sofa_submission] \<and>
   reddit_requests (snd (scan_loop sample_globals three_sources [''A'', ''B'', ''C''] [] world0)) =
     [''A'', ''B'', ''C'']"
proof -
  have ev:
    "concat (map (\<lambda>i. map (match_of ([''A'', ''B'', ''C''] ! i))
                        (keyword_matches (KEYWORDS sample_globals)
                           (yielded (three_sources (reddit_requests world0 @ take i [''A'', ''B'', ''C''])
                              ([''A'', ''B'', ''C''] ! i) (POST_LIMIT sample_globals)))))
               [0..<length [''A'', ''B'', ''C'']]) =
     [match_of ''A'' lamp_submission, match_of ''C'' sofa_submission]"
    by code_simp
  have rq: "reddit_requests world0 @ [''A'', ''B'', ''C''] = [''A'', ''B'', ''C'']"
    by (simp add: world0_def)
  have ra: "raised (three_sources [''A''] ''B'' 20) = Some SourceUnavailable"
    by (simp add: three_sources_def)
  from collection_isolated [of sample_globals three_sources "[''A'', ''B'', ''C'']" world0]
  show ?thesis
    by (simp only: ev rq ra simp_thms)
qed

text \<open>
  The claim as first stated has a failing source contribute the empty sequence. A source
  whose listing yields a matching submission and then raises contributes that match.
\<close>

theorem failing_source_counterexample:
  "raised (breaking_source (reddit_requests world0) ''A'' (POST_LIMIT sample_globals)) =
     Some SourceUnavailable \<and>
   fst (fetch_matching_posts sample_globals breaking_source ''A'' (KEYWORDS sample_globals) world0) =
     [match_of ''A'' lamp_submission] \<and>
   fst (scan_loop sample_globals breaking_source [''A''] [] world0) \<noteq> []"
  by code_simp

section \<open>The selection\<close>

lemma length_scores_of [simp]: "length (scores_of e ps w) = length ps"
  by (induction ps arbitrary: w) (auto split: prod.splits)

lemma scoring_loop_eq:
  "fst (scoring_loop e ps scored w) =
     scored @ filter (\<lambda>x. 0 < fst x) (zip (scores_of e ps w) ps)"
  by (induction ps arbitrary: scored w) (auto split: prod.splits)

lemma sort_reverse_mset [simp]: "mset (sort_reverse f xs) = mset xs"
  by (simp add: sort_reverse_def)

lemma sort_reverse_length [simp]: "length (sort_reverse f xs) = length xs"
  by (simp add: sort_reverse_def)

lemma sort_reverse_descending: "sorted_wrt (\<lambda>a b. f b \<le> f a) (sort_reverse f xs)"
proof -
  have "sorted (map f (sort_key f (rev xs)))" by (rule sorted_sort_key)
  then have "sorted_wrt (\<lambda>a b. f a \<le> f b) (sort_key f (rev xs))"
    by (simp add: sorted_map)
  then show ?thesis
    by (simp add: sort_reverse_def sorted_wrt_rev)
qed

lemma sort_reverse_stable:
  "filter (\<lambda>x. f x = k) (sort_reverse f xs) = filter (\<lambda>x. f x = k) xs"
  by (simp add: sort_reverse_def rev_filter [symmetric] sort_key_stable)

lemma slice_to_prefix: "prefix (slice_to xs n) xs"
  by (simp add: slice_to_def take_is_prefix)

lemma slice_to_length: "0 \<le> n \<Longrightarrow> length (slice_to xs n) = min (nat n) (length xs)"
  by (simp add: slice_to_def min_def)

lemma filter_with_ai_selected:
  "fst (filter_with_ai e posts cap w) = map snd (selected e posts cap w)"
  by (simp add: filter_with_ai_def selected_def split: prod.splits)

lemma selected_eq:
  "selected e posts cap w =
     slice_to (sort_reverse fst (filter (\<lambda>x. 0 < fst x) (zip (scores_of e posts w) posts))) cap"
  by (simp add: selected_def scoring_loop_eq)

lemma prefix_mset: "prefix xs ys \<Longrightarrow> mset xs \<subseteq># mset ys"
  by (auto simp: prefix_def)

lemma selected_mset:
  "mset (selected e posts cap w) \<subseteq># mset (filter (\<lambda>x. 0 < fst x) (zip (scores_of e posts w) posts))"
proof -
  have "mset (selected e posts cap w) \<subseteq>#
        mset (sort_reverse fst (filter (\<lambda>x. 0 < fst x) (zip (scores_of e posts w) posts)))"
    unfolding selected_eq by (rule prefix_mset) (rule slice_to_prefix)
  then show ?thesis by simp
qed

lemma selected_positive: "x \<in> set (selected e posts cap w) \<Longrightarrow> 0 < fst x"
  using mset_subset_eqD [OF selected_mset, of x e posts cap w] by auto

lemma prefix_sorted_wrt: "prefix xs ys \<Longrightarrow> sorted_wrt P ys \<Longrightarrow> sorted_wrt P xs"
  by (auto simp: prefix_def sorted_wrt_append)

lemma selected_descending: "sorted_wrt (\<lambda>a b. fst b \<le> fst a) (selected e posts cap w)"
  unfolding selected_eq
  by (rule prefix_sorted_wrt [OF slice_to_prefix sort_reverse_descending])

lemma length_filter_zip_fst:
  "length ss = length ps \<Longrightarrow>
   length (filter (\<lambda>x. P (fst x)) (zip ss ps)) = length (filter P ss)"
  by (induction ss ps rule: list_induct2) simp_all

lemma selected_length:
  "0 \<le> cap \<Longrightarrow>
   length (selected e posts cap w) =
     min (nat cap) (length (filter (\<lambda>s. 0 < s) (scores_of e posts w)))"
  by (simp add: selected_eq slice_to_length length_filter_zip_fst)

lemma selected_stable:
  "prefix (filter (\<lambda>x. fst x = k) (selected e posts cap w))
          (filter (\<lambda>x. fst x = k) (zip (scores_of e posts w) posts))"
proof (cases "0 < k")
  case True
  have "prefix (filter (\<lambda>x. fst x = k) (selected e posts cap w))
          (filter (\<lambda>x. fst x = k)
             (sort_reverse fst (filter (\<lambda>x. 0 < fst x) (zip (scores_of e posts w) posts))))"
    unfolding selected_eq by (rule filter_mono_prefix) (rule slice_to_prefix)
  also have "filter (\<lambda>x. fst x = k)
             (sort_reverse fst (filter (\<lambda>x. 0 < fst x) (zip (scores_of e posts w) posts))) =
        filter (\<lambda>x. fst x = k) (zip (scores_of e posts w) posts)"
    using True by (auto simp: sort_reverse_stable intro: filter_cong)
  finally show ?thesis .
next
  case False
  then have "filter (\<lambda>x. fst x = k) (selected e posts cap w) = []"
    by (auto simp: filter_empty_conv dest: selected_positive)
  then show ?thesis by simp
qed

lemma filter_with_ai_scores:
  "fst (filter_with_ai e posts cap w) =
     map snd (slice_to (sort_reverse fst
       (filter (\<lambda>x. 0 < fst x) (zip (scores_of e posts w) posts))) cap)"
  by (simp add: filter_with_ai_selected selected_eq)

lemma slack_requests_logging [simp]: "slack_requests (logging ev w) = slack_requests w"
  by (simp add: logging_def)

lemma send_to_slack_requests:
  "slack_requests (send_to_slack e ps w) =
     slack_requests w @
     map (\<lambda>i. (message_of (ps ! i),
                requests_post e (map fst (slack_requests w) @ map message_of (take i ps))
                  (message_of (ps ! i))))
       [0..<length ps]"
proof (induction ps arbitrary: w)
  case Nil
  show ?case by simp
next
  case (Cons p ps)
  have idx: "[0..<length (p # ps)] = 0 # map Suc [0..<length ps]"
    by (simp add: upt_conv_Cons map_Suc_upt del: upt_Suc)
  show ?case
    unfolding idx
    by (simp add: Cons.IH Let_def o_def split: webhook_reply.splits)
qed

lemma send_to_slack_messages:
  "map fst (slack_requests (send_to_slack e ps w)) =
     map fst (slack_requests w) @ map message_of ps"
proof -
  have "map (\<lambda>i. message_of (ps ! i)) [0..<length ps] = map message_of (map (\<lambda>i. ps ! i) [0..<length ps])"
    by (simp add: o_def)
  also have "\<dots> = map message_of ps"
    by (simp only: map_nth)
  finally show ?thesis
    by (simp add: send_to_slack_requests o_def)
qed

text \<open>
  C2. For every list of candidates and every cap (a number of items, so at least 0), the
  batch selection returns at most cap candidates: as many as the cap allows of those
  scored above 0. The selection is in descending order of score, every selected
  candidate is one of the input with the score it was given, and that score is above 0:
  a candidate scored 0 is left out whether or not the cap is reached.
\<close>

theorem selection_bounded:
  "fst (filter_with_ai e posts cap w) = map snd (selected e posts cap w) \<and>
   (0 \<le> cap \<longrightarrow>
      length (fst (filter_with_ai e posts cap w)) =
        min (nat cap) (length (filter (\<lambda>s. 0 < s) (scores_of e posts w))) \<and>
      int (length (fst (filter_with_ai e posts cap w))) \<le> cap) \<and>
   sorted_wrt (\<lambda>a b. fst b \<le> fst a) (selected e posts cap w) \<and>
   (\<forall>x \<in> set (selected e posts cap w). 0 < fst x) \<and>
   mset (selected e posts cap w) \<subseteq># mset (zip (scores_of e posts w) posts)"
proof (intro conjI impI ballI)
  show "fst (filter_with_ai e posts cap w) = map snd (selected e posts cap w)"
    by (rule filter_with_ai_selected)
  show "sorted_wrt (\<lambda>a b. fst b \<le> fst a) (selected e posts cap w)"
    by (rule selected_descending)
  show "0 < fst x" if "x \<in> set (selected e posts cap w)" for x
    using that by (rule selected_positive)
  have "mset (filter (\<lambda>x. 0 < fst x) (zip (scores_of e posts w) posts)) \<subseteq>#
        mset (zip (scores_of e posts w) posts)"
    by simp
  with selected_mset [of e posts cap w]
  show "mset (selected e posts cap w) \<subseteq># mset (zip (scores_of e posts w) posts)"
    by (rule subset_mset.order_trans)
next
  assume c: "0 \<le> cap"
  then show len: "length (fst (filter_with_ai e posts cap w)) =
        min (nat cap) (length (filter (\<lambda>s. 0 < s) (scores_of e posts w)))"
    by (simp add: filter_with_ai_selected selected_length)
  from c show "int (length (fst (filter_with_ai e posts cap w))) \<le> cap"
    unfolding len by simp
qed

theorem selection_bounded_witness:
  "(0::int) \<le> 2 \<and>
   fst (filter_with_ai (counting_oracle [''5'', ''9'', ''0'', ''5''])
          [lamp_post, sofa_post, cat_post, lamp_post] 2 world0) = [sofa_post, lamp_post] \<and>
   int (length (fst (filter_with_ai (counting_oracle [''5'', ''9'', ''0'', ''5''])
          [lamp_post, sofa_post, cat_post, lamp_post] 2 world0))) \<le> 2"
proof -
  have ev: "selected (counting_oracle [''5'', ''9'', ''0'', ''5''])
          [lamp_post, sofa_post, cat_post, lamp_post] 2 world0 = [(9, sofa_post), (5, lamp_post)]"
    by code_simp
  have c: "(0::int) \<le> 2" by simp
  from selection_bounded [of "counting_oracle [''5'', ''9'', ''0'', ''5'']"
      "[lamp_post, sofa_post, cat_post, lamp_post]" 2 world0] c
  have "fst (filter_with_ai (counting_oracle [''5'', ''9'', ''0'', ''5''])
          [lamp_post, sofa_post, cat_post, lamp_post] 2 world0) =
        map snd (selected (counting_oracle [''5'', ''9'', ''0'', ''5''])
          [lamp_post, sofa_post, cat_post, lamp_post] 2 world0)"
    and "int (length (fst (filter_with_ai (counting_oracle [''5'', ''9'', ''0'', ''5''])
          [lamp_post, sofa_post, cat_post, lamp_post] 2 world0))) \<le> 2"
    by blast+
  then show ?thesis by (simp add: ev)
qed

text \<open>
  C3. Selection ordering is stable: for every list of candidates, every oracle and every
  score \<open>k\<close>, the selected candidates scored \<open>k\<close> stand in the selection in the order
  they had in the input, as its first candidates scored \<open>k\<close>; so any two selected
  candidates with equal scores keep their relative order.
\<close>

theorem selection_stable:
  "fst (filter_with_ai e posts cap w) = map snd (selected e posts cap w) \<and>
   (\<forall>k. prefix (filter (\<lambda>x. fst x = k) (selected e posts cap w))
               (filter (\<lambda>x. fst x = k) (zip (scores_of e posts w) posts)))"
  by (simp add: filter_with_ai_selected selected_stable)

theorem selection_stable_witness:
  "fst (filter_with_ai (counting_oracle [''5'', ''9'', ''5'', ''0''])
          [lamp_post, sofa_post, cat_post, lamp_post] 10 world0) =
     [sofa_post, lamp_post, cat_post] \<and>
   prefix [(5, lamp_post), (5, cat_post)]
     (filter (\<lambda>x. fst x = 5)
        (zip (scores_of (counting_oracle [''5'', ''9'', ''5'', ''0''])
                [lamp_post, sofa_post, cat_post, lamp_post] world0)
           [lamp_post, sofa_post, cat_post, lamp_post]))"
proof -
  have ev: "selected (counting_oracle [''5'', ''9'', ''5'', ''0''])
          [lamp_post, sofa_post, cat_post, lamp_post] 10 world0 =
        [(9, sofa_post), (5, lamp_post), (5, cat_post)]"
    by code_simp
  have f: "filter (\<lambda>x. fst x = 5) [(9, sofa_post), (5::int, lamp_post), (5, cat_post)] =
        [(5, lamp_post), (5, cat_post)]"
    by simp
  from selection_stable [of "counting_oracle [''5'', ''9'', ''5'', ''0'']"
      "[lamp_post, sofa_post, cat_post, lamp_post]" 10 world0]
  have a: "fst (filter_with_ai (counting_oracle [''5'', ''9'', ''5'', ''0''])
          [lamp_post, sofa_post, cat_post, lamp_post] 10 world0) =
        map snd (selected (counting_oracle [''5'', ''9'', ''5'', ''0''])
          [lamp_post, sofa_post, cat_post, lamp_post] 10 world0)"
    and b: "prefix (filter (\<lambda>x. fst x = 5) (selected (counting_oracle [''5'', ''9'', ''5'', ''0''])
          [lamp_post, sofa_post, cat_post, lamp_post] 10 world0))
     (filter (\<lambda>x. fst x = 5)
        (zip (scores_of (counting_oracle [''5'', ''9'', ''5'', ''0''])
                [lamp_post, sofa_post, cat_post, lamp_post] world0)
           [lamp_post, sofa_post, cat_post, lamp_post]))"
    by blast+
  from a have "fst (filter_with_ai (counting_oracle [''5'', ''9'', ''5'', ''0''])
          [lamp_post, sofa_post, cat_post, lamp_post] 10 world0) =
     [sofa_post, lamp_post, cat_post]"
    by (simp add: ev)
  moreover from b have "prefix [(5, lamp_post), (5, cat_post)]
     (filter (\<lambda>x. fst x = 5)
        (zip (scores_of (counting_oracle [''5'', ''9'', ''5'', ''0''])
                [lamp_post, sofa_post, cat_post, lamp_post] world0)
           [lamp_post, sofa_post, cat_post, lamp_post]))"
    by (simp only: ev f)
  ultimately show ?thesis by blast
qed

text \<open>
  C10. The scoring and selection stage is determined by the candidates and their scores:
  two runs over the same list in which the oracle gives each candidate the same score,
  whatever else differs in the services and in the state, select the same sequence. The
  notifier then posts one message per selected candidate, in the order of the selection,
  whatever the webhook replies.
\<close>

theorem selection_deterministic:
  "(scores_of e1 posts w1 = scores_of e2 posts w2 \<longrightarrow>
      fst (filter_with_ai e1 posts cap w1) = fst (filter_with_ai e2 posts cap w2)) \<and>
   map fst (slack_requests (send_to_slack e (fst (filter_with_ai e1 posts cap w1)) w)) =
     map fst (slack_requests w) @ map message_of (fst (filter_with_ai e1 posts cap w1))"
  by (simp add: filter_with_ai_scores send_to_slack_messages)

theorem selection_deterministic_witness:
  "scores_of (counting_oracle [''5'', ''9'']) [lamp_post, sofa_post] world0 =
     scores_of (counting_oracle ['' 5'', ''9 of ten'']) [lamp_post, sofa_post]
       (logging Starting world0) \<and>
   fst (filter_with_ai (counting_oracle [''5'', ''9'']) [lamp_post, sofa_post] 10 world0) =
     fst (filter_with_ai (counting_oracle ['' 5'', ''9 of ten'']) [lamp_post, sofa_post] 10
       (logging Starting world0))"
proof -
  have s: "scores_of (counting_oracle [''5'', ''9'']) [lamp_post, sofa_post] world0 =
     scores_of (counting_oracle ['' 5'', ''9 of ten'']) [lamp_post, sofa_post]
       (logging Starting world0)"
    by code_simp
  with selection_deterministic [of "counting_oracle [''5'', ''9'']" "[lamp_post, sofa_post]"
      world0 "counting_oracle ['' 5'', ''9 of ten'']" "logging Starting world0" 10]
  show ?thesis by blast
qed

section \<open>The notifier and the run\<close>

lemma main_eq:
  "main g e w =
     (case praw_Reddit e of
        Some x \<Rightarrow> (Inl x, logging Starting w)
      | None \<Rightarrow>
          if fst (collected g e w) = [] then (Inr (), logging NoKeywordMatches (snd (collected g e w)))
          else if fst (selection g e w) \<noteq> []
          then (Inr (), logging (Sent (length (fst (selection g e w))))
                  (send_to_slack e (fst (selection g e w)) (snd (selection g e w))))
          else (Inr (), logging NonePassed (snd (selection g e w))))"
  by (simp add: main_def create_reddit_instance_def collected_def selection_def Let_def
      split: option.splits prod.splits)

lemma log_logging [simp]: "log (logging ev w) = log w @ [ev]"
  by (simp add: logging_def)

lemma oracle_requests_logging [simp]: "oracle_requests (logging ev w) = oracle_requests w"
  by (simp add: logging_def)

lemma fetch_matching_posts_slack [simp]:
  "slack_requests (snd (fetch_matching_posts g r n ks w)) = slack_requests w"
  by (simp add: fetch_matching_posts_def Let_def split: option.splits)

lemma scan_loop_slack [simp]:
  "slack_requests (snd (scan_loop g r subs acc w)) = slack_requests w"
proof (induction subs arbitrary: acc w)
  case Nil
  show ?case by simp
next
  case (Cons s subs)
  obtain m w1 where f: "fetch_matching_posts g r s (KEYWORDS g) (logging (Scanning s) w) = (m, w1)"
    by (cases "fetch_matching_posts g r s (KEYWORDS g) (logging (Scanning s) w)")
  have "slack_requests w1 = slack_requests w"
    using fetch_matching_posts_slack [of g r s "KEYWORDS g" "logging (Scanning s) w"] f by simp
  then show ?case by (simp add: f Cons.IH)
qed

lemma score_post_with_ai_other [simp]:
  "slack_requests (snd (score_post_with_ai e p w)) = slack_requests w"
  "reddit_requests (snd (score_post_with_ai e p w)) = reddit_requests w"
  by (simp_all add: score_post_with_ai_def Let_def split: sum.splits)

lemma scoring_loop_slack [simp]:
  "slack_requests (snd (scoring_loop e ps scored w)) = slack_requests w"
  by (induction ps arbitrary: scored w) (simp_all add: split_beta)

lemma scoring_loop_reddit [simp]:
  "reddit_requests (snd (scoring_loop e ps scored w)) = reddit_requests w"
  by (induction ps arbitrary: scored w) (simp_all add: split_beta)

lemma filter_with_ai_other [simp]:
  "slack_requests (snd (filter_with_ai e ps cap w)) = slack_requests w"
  "reddit_requests (snd (filter_with_ai e ps cap w)) = reddit_requests w"
  by (simp_all add: filter_with_ai_def split_beta)

lemma send_to_slack_reddit [simp]:
  "reddit_requests (send_to_slack e ps w) = reddit_requests w"
  by (induction ps arbitrary: w) (simp_all add: Let_def split: webhook_reply.splits)

lemma collected_requests:
  "reddit_requests (snd (collected g e w)) = reddit_requests w @ SUBREDDITS g"
  "slack_requests (snd (collected g e w)) = slack_requests w"
  using scan_loop_eq [of g "hot e" "SUBREDDITS g" "[]" "logging Starting w"]
  by (simp_all add: collected_def)

lemma selection_requests:
  "reddit_requests (snd (selection g e w)) = reddit_requests w @ SUBREDDITS g"
  "slack_requests (snd (selection g e w)) = slack_requests w"
  by (simp_all add: selection_def collected_requests)

lemma failing_oracle_scores:
  assumes "\<forall>h q c. chat_completions_create e h q \<noteq> Content c"
  shows "fst (score_post_with_ai e p w) = 0"
  using assms
  by (cases "chat_completions_create e (oracle_requests w) (prompt_of p)") (simp_all add: score_eq)

lemma failing_oracle_scoring_loop:
  assumes "\<forall>h q c. chat_completions_create e h q \<noteq> Content c"
  shows "fst (scoring_loop e ps scored w) = scored"
  by (induction ps arbitrary: scored w)
    (simp_all add: split_beta failing_oracle_scores [OF assms])

lemma failing_oracle_filter:
  assumes "\<forall>h q c. chat_completions_create e h q \<noteq> Content c"
  shows "fst (filter_with_ai e ps cap w) = []"
  by (simp add: filter_with_ai_def split_beta failing_oracle_scoring_loop [OF assms]
      sort_reverse_def slice_to_def)

lemma main_no_delivery:
  "fst (selection g e w) = [] \<Longrightarrow> slack_requests (snd (main g e w)) = slack_requests w"
  by (simp add: main_eq collected_requests selection_requests split: option.splits)

text \<open>
  C6, as amended. \<open>send_to_slack\<close> returns nothing. It makes one delivery request for
  every item of the selection, in order, each with the reply the webhook gives it: a
  failure for one item does not block the items after it, so when the webhook fails for
  item 2 of 3, items 1 and 3 are still delivered. The run then reports the number of
  selected items, not the number of successful deliveries.
\<close>

theorem delivery_independent:
  "slack_requests (send_to_slack e ps w) =
     slack_requests w @
     map (\<lambda>i. (message_of (ps ! i),
                requests_post e (map fst (slack_requests w) @ map message_of (take i ps))
                  (message_of (ps ! i))))
       [0..<length ps] \<and>
   (praw_Reddit e = None \<and> fst (selection g e w) \<noteq> [] \<longrightarrow>
      fst (main g e w) = Inr () \<and>
      log (snd (main g e w)) =
        log (send_to_slack e (fst (selection g e w)) (snd (selection g e w))) @
        [Sent (length (fst (selection g e w)))])"
proof (intro conjI impI)
  show "slack_requests (send_to_slack e ps w) =
     slack_requests w @
     map (\<lambda>i. (message_of (ps ! i),
                requests_post e (map fst (slack_requests w) @ map message_of (take i ps))
                  (message_of (ps ! i))))
       [0..<length ps]"
    by (rule send_to_slack_requests)
next
  assume a: "praw_Reddit e = None \<and> fst (selection g e w) \<noteq> []"
  then have c: "fst (collected g e w) \<noteq> []"
    by (auto simp: selection_def filter_with_ai_def sort_reverse_def slice_to_def)
  from a c show "fst (main g e w) = Inr ()"
    by (simp add: main_eq)
  from a c show "log (snd (main g e w)) =
        log (send_to_slack e (fst (selection g e w)) (snd (selection g e w))) @
        [Sent (length (fst (selection g e w)))]"
    by (simp add: main_eq)
qed

theorem delivery_independent_witness:
  "praw_Reddit flaky_webhook_env = None \<and>
   fst (selection sample_globals flaky_webhook_env world0) =
     [match_of ''A'' lamp_submission, match_of ''A'' sofa_submission,
      match_of ''C'' sofa_submission] \<and>
   slack_requests (send_to_slack flaky_webhook_env
       [match_of ''A'' lamp_submission, match_of ''A'' sofa_submission,
        match_of ''C'' sofa_submission] world0) =
     [(message_of (match_of ''A'' lamp_submission), Response 200 ''ok''),
      (message_of (match_of ''A'' sofa_submission), PostFails RequestException),
      (message_of (match_of ''C'' sofa_submission), Response 200 ''ok'')] \<and>
   last (log (snd (main sample_globals flaky_webhook_env world0))) = Sent 3"
proof -
  have p: "praw_Reddit flaky_webhook_env = None"
    by (simp add: flaky_webhook_env_def)
  have sel: "fst (selection sample_globals flaky_webhook_env world0) =
     [match_of ''A'' lamp_submission, match_of ''A'' sofa_submission,
      match_of ''C'' sofa_submission]"
    by code_simp
  have ev: "slack_requests world0 @
     map (\<lambda>i. (message_of ([match_of ''A'' lamp_submission, match_of ''A'' sofa_submission,
                   match_of ''C'' sofa_submission] ! i),
                requests_post flaky_webhook_env
                  (map fst (slack_requests world0) @
                   map message_of (take i [match_of ''A'' lamp_submission,
                     match_of ''A'' sofa_submission, match_of ''C'' sofa_submission]))
                  (message_of ([match_of ''A'' lamp_submission, match_of ''A'' sofa_submission,
                   match_of ''C'' sofa_submission] ! i))))
       [0..<length [match_of ''A'' lamp_submission, match_of ''A'' sofa_submission,
                   match_of ''C'' sofa_submission]] =
     [(message_of (match_of ''A'' lamp_submission), Response 200 ''ok''),
      (message_of (match_of ''A'' sofa_submission), PostFails RequestException),
      (message_of (match_of ''C'' sofa_submission), Response 200 ''ok'')]"
    by code_simp
  have ne: "fst (selection sample_globals flaky_webhook_env world0) \<noteq> []"
    by (simp add: sel)
  note t = delivery_independent [of flaky_webhook_env
      "[match_of ''A'' lamp_submission, match_of ''A'' sofa_submission,
        match_of ''C'' sofa_submission]" world0 sample_globals]
  from t have "slack_requests (send_to_slack flaky_webhook_env
       [match_of ''A'' lamp_submission, match_of ''A'' sofa_submission,
        match_of ''C'' sofa_submission] world0) =
     [(message_of (match_of ''A'' lamp_submission), Response 200 ''ok''),
      (message_of (match_of ''A'' sofa_submission), PostFails RequestException),
      (message_of (match_of ''C'' sofa_submission), Response 200 ''ok'')]"
    by (simp only: ev)
  moreover from t p ne have "log (snd (main sample_globals flaky_webhook_env world0)) =
        log (send_to_slack flaky_webhook_env (fst (selection sample_globals flaky_webhook_env world0))
          (snd (selection sample_globals flaky_webhook_env world0))) @
        [Sent (length (fst (selection sample_globals flaky_webhook_env world0)))]"
    by blast
  then have "last (log (snd (main sample_globals flaky_webhook_env world0))) = Sent 3"
    by (simp add: sel)
  ultimately show ?thesis using p sel by blast
qed

text \<open>
  The claim as first stated reports 2 when the webhook fails for item 2 of 3. Two
  messages are delivered and the run reports 3.
\<close>

theorem delivery_count_counterexample:
  "delivered (snd (main sample_globals flaky_webhook_env world0)) =
     [message_of (match_of ''A'' lamp_submission), message_of (match_of ''C'' sofa_submission)] \<and>
   last (log (snd (main sample_globals flaky_webhook_env world0))) = Sent 3 \<and>
   Sent 2 \<notin> set (log (snd (main sample_globals flaky_webhook_env world0)))"
  by code_simp

text \<open>
  C7, as amended. An error raised while the source client is constructed surfaces at
  once and aborts the run before anything is fetched, and it is the only error that
  stops the pipeline: once the client is constructed the run completes and requests
  every source, whatever the services raise. An error raised by a fetch, invalid
  credentials included, is caught and logged like any other fetch error.
\<close>

theorem setup_error_aborts:
  "(praw_Reddit e = Some x \<longrightarrow> main g e w = (Inl x, logging Starting w)) \<and>
   (praw_Reddit e = None \<longrightarrow>
      fst (main g e w) = Inr () \<and>
      reddit_requests (snd (main g e w)) = reddit_requests w @ SUBREDDITS g)"
  by (simp add: main_eq collected_requests selection_requests)

theorem setup_error_aborts_witness:
  "praw_Reddit unconfigured_env = Some MissingRequiredAttribute \<and>
   main sample_globals unconfigured_env world0 =
     (Inl MissingRequiredAttribute, world0\<lparr>log := [Starting]\<rparr>) \<and>
   praw_Reddit flaky_webhook_env = None \<and>
   fst (main sample_globals flaky_webhook_env world0) = Inr () \<and>
   reddit_requests (snd (main sample_globals flaky_webhook_env world0)) = [''A'', ''B'', ''C'']"
proof -
  have a: "praw_Reddit unconfigured_env = Some MissingRequiredAttribute"
    by (simp add: unconfigured_env_def)
  have b: "praw_Reddit flaky_webhook_env = None"
    by (simp add: flaky_webhook_env_def)
  have c: "logging Starting world0 = world0\<lparr>log := [Starting]\<rparr>"
    by (simp add: logging_def world0_def)
  have d: "reddit_requests world0 @ SUBREDDITS sample_globals = [''A'', ''B'', ''C'']"
    by (simp add: world0_def sample_globals_def)
  from a b
    setup_error_aborts [of unconfigured_env MissingRequiredAttribute sample_globals world0]
    setup_error_aborts [of flaky_webhook_env MissingRequiredAttribute sample_globals world0]
  show ?thesis
    by (simp only: c d simp_thms)
qed

text \<open>
  The claim as first stated has invalid credentials abort the run before any fetch. When
  the client is constructed and every fetch raises for invalid credentials, all three
  sources are requested, each error is logged as a fetch error, and the run completes.
\<close>

theorem credentials_counterexample:
  "praw_Reddit rejected_env = None \<and>
   hot rejected_env [] ''A'' 20 = Listing [] (Some InvalidCredentials) \<and>
   fst (main sample_globals rejected_env world0) = Inr () \<and>
   reddit_requests (snd (main sample_globals rejected_env world0)) = [''A'', ''B'', ''C''] \<and>
   log (snd (main sample_globals rejected_env world0)) =
     [Starting,
      Scanning ''A'', FetchError ''A'' InvalidCredentials,
      Scanning ''B'', FetchError ''B'' InvalidCredentials,
      Scanning ''C'', FetchError ''C'' InvalidCredentials,
      NoKeywordMatches]"
  by code_simp

text \<open>
  C8. The pipeline never calls the notification endpoint when the selection is empty: no
  delivery request is made, and a run that had candidates ends by logging that none
  passed. When the oracle request fails for every candidate (or returns no content), the
  selection is empty and no delivery request is made.
\<close>

theorem no_delivery_when_empty:
  "(fst (selection g e w) = [] \<longrightarrow> slack_requests (snd (main g e w)) = slack_requests w) \<and>
   (praw_Reddit e = None \<and> fst (collected g e w) \<noteq> [] \<and> fst (selection g e w) = [] \<longrightarrow>
      last (log (snd (main g e w))) = NonePassed) \<and>
   ((\<forall>h q c. chat_completions_create e h q \<noteq> Content c) \<longrightarrow>
      fst (filter_with_ai e posts cap w) = [] \<and>
      fst (selection g e w) = [] \<and>
      slack_requests (snd (main g e w)) = slack_requests w)"
proof (intro conjI impI)
  assume "fst (selection g e w) = []"
  then show "slack_requests (snd (main g e w)) = slack_requests w"
    by (rule main_no_delivery)
next
  assume "praw_Reddit e = None \<and> fst (collected g e w) \<noteq> [] \<and> fst (selection g e w) = []"
  then show "last (log (snd (main g e w))) = NonePassed"
    by (simp add: main_eq)
next
  assume a: "\<forall>h q c. chat_completions_create e h q \<noteq> Content c"
  show "fst (filter_with_ai e posts cap w) = []"
    by (rule failing_oracle_filter [OF a])
  show s: "fst (selection g e w) = []"
    unfolding selection_def by (rule failing_oracle_filter [OF a])
  show "slack_requests (snd (main g e w)) = slack_requests w"
    by (rule main_no_delivery [OF s])
qed

theorem no_delivery_when_empty_witness:
  "fst (collected sample_globals failing_oracle_env world0) =
     [match_of ''A'' lamp_submission, match_of ''A'' sofa_submission,
      match_of ''C'' sofa_submission] \<and>
   fst (selection sample_globals failing_oracle_env world0) = [] \<and>
   slack_requests (snd (main sample_globals failing_oracle_env world0)) = [] \<and>
   last (log (snd (main sample_globals failing_oracle_env world0))) = NonePassed"
proof -
  have a: "\<forall>h q c. chat_completions_create failing_oracle_env h q \<noteq> Content c"
    by (simp add: failing_oracle_env_def)
  have p: "praw_Reddit failing_oracle_env = None"
    by (simp add: failing_oracle_env_def)
  have c: "fst (collected sample_globals failing_oracle_env world0) =
     [match_of ''A'' lamp_submission, match_of ''A'' sofa_submission,
      match_of ''C'' sofa_submission]"
    by code_simp
  have ne: "fst (collected sample_globals failing_oracle_env world0) \<noteq> []"
    by (simp add: c)
  have w: "slack_requests world0 = []"
    by (simp add: world0_def)
  note t = no_delivery_when_empty [of sample_globals failing_oracle_env world0 "[]" 10]
  from t a have s: "fst (selection sample_globals failing_oracle_env world0) = []"
    and d: "slack_requests (snd (main sample_globals failing_oracle_env world0)) =
        slack_requests world0"
    by blast+
  from t p ne s have "last (log (snd (main sample_globals failing_oracle_env world0))) = NonePassed"
    by blast
  with c s d w show ?thesis by simp
qed

end
